theory Spec2Isabelle
  imports Main "HOL-Library.Sublist" "HOL-Library.AList"
begin

section \<open>JavaScript values and strings\<close>

text \<open>
  Query texts are JavaScript strings. They are modelled as \<^typ>\<open>string\<close>, one
  \<^typ>\<open>char\<close> per UTF-16 code unit below 256. On this range \<open>toUpperCase\<close> only
  matters through the ASCII letters: the two needles searched after upper-casing
  (\<open>FILTER\<close> and \<open>$SYSTEM\<close>) cannot arise from any other code unit below 256.
  Objects used as dictionaries are association lists in insertion order; their keys
  are assumed distinct from the property names of \<open>Object.prototype\<close>.
\<close>

datatype jsval = JUndefined | JNull | JBool bool | JNum int | JStr string

datatype error = Error string | TypeError string

fun truthy :: "jsval \<Rightarrow> bool" where
  "truthy JUndefined = False"
| "truthy JNull = False"
| "truthy (JBool b) = b"
| "truthy (JNum n) = (n \<noteq> 0)"
| "truthy (JStr s) = (s \<noteq> [])"

fun is_string :: "jsval \<Rightarrow> bool" where
  "is_string (JStr s) = True"
| "is_string v = False"

definition digit_char :: "nat \<Rightarrow> char" where
  "digit_char d = char_of (48 + d)"

fun show_nat :: "nat \<Rightarrow> string" where
  "show_nat n = (if n < 10 then [digit_char n] else show_nat (n div 10) @ [digit_char (n mod 10)])"

declare show_nat.simps [simp del]

fun to_string :: "jsval \<Rightarrow> string" where
  "to_string JUndefined = ''undefined''"
| "to_string JNull = ''null''"
| "to_string (JBool b) = (if b then ''true'' else ''false'')"
| "to_string (JNum n) = (if n < 0 then CHR ''-'' # show_nat (nat (- n)) else show_nat (nat n))"
| "to_string (JStr s) = s"

definition is_space :: "char \<Rightarrow> bool" where
  "is_space c = (let n = (of_char c :: nat) in (9 \<le> n \<and> n \<le> 13) \<or> n = 32 \<or> n = 160)"

definition is_digit :: "char \<Rightarrow> bool" where
  "is_digit c = (let n = (of_char c :: nat) in 48 \<le> n \<and> n \<le> 57)"

definition is_word :: "char \<Rightarrow> bool" where
  "is_word c = (let n = (of_char c :: nat) in
     (97 \<le> n \<and> n \<le> 122) \<or> (65 \<le> n \<and> n \<le> 90) \<or> (48 \<le> n \<and> n \<le> 57) \<or> n = 95)"

definition upper_char :: "char \<Rightarrow> char" where
  "upper_char c = (let n = (of_char c :: nat) in if 97 \<le> n \<and> n \<le> 122 then char_of (n - 32) else c)"

definition toUpperCase :: "string \<Rightarrow> string" where
  "toUpperCase s = map upper_char s"

definition trim :: "string \<Rightarrow> string" where
  "trim s = rev (dropWhile is_space (rev (dropWhile is_space s)))"

fun includes_str :: "string \<Rightarrow> string \<Rightarrow> bool" where
  "includes_str [] needle = (needle = [])"
| "includes_str (x # xs) needle = (prefix needle (x # xs) \<or> includes_str xs needle)"

fun join :: "string \<Rightarrow> string list \<Rightarrow> string" where
  "join sep [] = []"
| "join sep [x] = x"
| "join sep (x # y # ys) = x @ sep @ join sep (y # ys)"

definition js_or :: "string option \<Rightarrow> string option \<Rightarrow> string option" where
  "js_or a b = (case a of Some (x # xs) \<Rightarrow> a | _ \<Rightarrow> b)"

fun prop_key :: "string option \<Rightarrow> string" where
  "prop_key None = ''undefined''"
| "prop_key (Some k) = k"

section \<open>Regular expressions\<close>

text \<open>
  The fragment of the regular-expression language that the source uses: a pattern
  is a sequence of items, matched by backtracking with greedy quantifiers.
  \<open>Lit\<close> is a literal character (compared after case folding under flag \<open>i\<close>),
  \<open>Space\<close> is \<open>\s\<close>, \<open>Digit\<close> is \<open>\d\<close>, \<open>NotRParen\<close> is \<open>[^)]\<close>;
  \<open>Bol\<close>, \<open>Eol\<close> and \<open>WordB\<close> are \<open>^\<close>, \<open>$\<close> and \<open>\b\<close>.
\<close>

datatype cls = Lit char | Space | Digit | NotRParen

datatype item = One cls | Star cls | Plus cls | Bol | Eol | WordB

record regexp =
  source :: string
  items :: "item list"
  ignoreCase :: bool
  global :: bool
  lastIndex :: nat

fun cls_ok :: "bool \<Rightarrow> cls \<Rightarrow> char \<Rightarrow> bool" where
  "cls_ok ic (Lit c) x = (if ic then upper_char x = upper_char c else x = c)"
| "cls_ok ic Space x = is_space x"
| "cls_ok ic Digit x = is_digit x"
| "cls_ok ic NotRParen x = (x \<noteq> CHR '')'')"

fun first_some :: "'a option list \<Rightarrow> 'a option" where
  "first_some [] = None"
| "first_some (None # xs) = first_some xs"
| "first_some (Some x # xs) = Some x"

definition prev_after :: "char option \<Rightarrow> string \<Rightarrow> nat \<Rightarrow> char option" where
  "prev_after prev rest k = (if k = 0 then prev else Some (rest ! (k - 1)))"

definition at_boundary :: "char option \<Rightarrow> string \<Rightarrow> bool" where
  "at_boundary prev rest =
     ((case prev of None \<Rightarrow> False | Some c \<Rightarrow> is_word c) \<noteq>
      (case rest of [] \<Rightarrow> False | c # cs \<Rightarrow> is_word c))"

text \<open>
  \<open>match_here its ic prev rest\<close> matches the items at the current position, where
  \<open>prev\<close> is the character before it (\<open>None\<close> at the start of the text) and
  \<open>rest\<close> the text from it on; the result is the number of characters consumed.
\<close>

primrec match_here :: "item list \<Rightarrow> bool \<Rightarrow> char option \<Rightarrow> string \<Rightarrow> nat option" where
  "match_here [] ic prev rest = Some 0"
| "match_here (it # its) ic prev rest =
     (case it of
        One c \<Rightarrow>
          (case rest of
             [] \<Rightarrow> None
           | x # xs \<Rightarrow> if cls_ok ic c x then map_option Suc (match_here its ic (Some x) xs) else None)
      | Star c \<Rightarrow>
          (let n = length (takeWhile (cls_ok ic c) rest)
           in first_some (map (\<lambda>k. map_option (\<lambda>m. k + m)
                 (match_here its ic (prev_after prev rest k) (drop k rest))) (rev [0..<Suc n])))
      | Plus c \<Rightarrow>
          (let n = length (takeWhile (cls_ok ic c) rest)
           in first_some (map (\<lambda>k. map_option (\<lambda>m. k + m)
                 (match_here its ic (prev_after prev rest k) (drop k rest))) (rev [1..<Suc n])))
      | Bol \<Rightarrow> (if prev = None then match_here its ic prev rest else None)
      | Eol \<Rightarrow> (if rest = [] then match_here its ic prev rest else None)
      | WordB \<Rightarrow> (if at_boundary prev rest then match_here its ic prev rest else None))"

text \<open>The leftmost match at or after the current position: its offset and its length.\<close>

fun search :: "item list \<Rightarrow> bool \<Rightarrow> char option \<Rightarrow> string \<Rightarrow> (nat \<times> nat) option" where
  "search its ic prev rest =
     (case match_here its ic prev rest of
        Some n \<Rightarrow> Some (0, n)
      | None \<Rightarrow>
          (case rest of
             [] \<Rightarrow> None
           | x # xs \<Rightarrow> map_option (\<lambda>(i, n). (Suc i, n)) (search its ic (Some x) xs)))"

declare search.simps [simp del]

text \<open>
  \<open>RegExp.prototype.test\<close>: a regular expression with flag \<open>g\<close> starts at its
  \<open>lastIndex\<close>, leaves it at the end of the match it finds and resets it to 0 when
  it finds none; without the flag the search starts at 0 and \<open>lastIndex\<close> is untouched.
\<close>

definition test :: "regexp \<Rightarrow> string \<Rightarrow> bool \<times> regexp" where
  "test r s =
     (let start = (if global r then lastIndex r else 0)
      in if start > length s then (False, r\<lparr>lastIndex := (if global r then 0 else lastIndex r)\<rparr>)
         else (case search (items r) (ignoreCase r) (prev_after None s start) (drop start s) of
                 None \<Rightarrow> (False, r\<lparr>lastIndex := (if global r then 0 else lastIndex r)\<rparr>)
               | Some (i, n) \<Rightarrow>
                   (True, r\<lparr>lastIndex := (if global r then start + i + n else lastIndex r)\<rparr>)))"

text \<open>A regular expression that is created where it is tested starts at \<open>lastIndex = 0\<close>.\<close>

definition test_fresh :: "item list \<Rightarrow> bool \<Rightarrow> string \<Rightarrow> bool" where
  "test_fresh its ic s = (search its ic None s \<noteq> None)"

text \<open>\<open>String.prototype.replace\<close> with a regular expression that has flag \<open>g\<close>.\<close>

fun replace_rx :: "item list \<Rightarrow> bool \<Rightarrow> string \<Rightarrow> char option \<Rightarrow> string \<Rightarrow> string" where
  "replace_rx its ic rep prev rest =
     (case match_here its ic prev rest of
        Some n \<Rightarrow>
          (case rest of
             [] \<Rightarrow> rep
           | x # xs \<Rightarrow>
               if n = 0 then rep @ x # replace_rx its ic rep (Some x) xs
               else rep @ replace_rx its ic rep (Some ((x # xs) ! (n - 1))) (drop (n - 1) xs))
      | None \<Rightarrow>
          (case rest of
             [] \<Rightarrow> []
           | x # xs \<Rightarrow> x # replace_rx its ic rep (Some x) xs))"

declare replace_rx.simps [simp del]

definition lits :: "string \<Rightarrow> item list" where
  "lits s = map (\<lambda>c. One (Lit c)) s"

section \<open>The query validator (dax-validator.js)\<close>

text \<open>
  The configuration \<open>CONFIG.QUERY\<close> as far as the validator reads it; a field that
  is absent is \<open>None\<close>. A dangerous-function name is interpolated into a regular
  expression; names are taken to consist of literal characters, as the configured ones do.
\<close>

record query_config =
  MAX_DAX_RESULT_ROWS :: "nat option"
  DAX_WARNING_THRESHOLD :: "nat option"
  BLOCKED_PATTERNS :: "regexp list option"
  DANGEROUS_FUNCTIONS :: "string list option"

record DAXValidator =
  maxRows :: nat
  warningThreshold :: nat
  blockedPatterns :: "regexp list"
  dangerousFunctions :: "string list"

definition num_or :: "nat option \<Rightarrow> nat \<Rightarrow> nat" where
  "num_or v d = (case v of None \<Rightarrow> d | Some n \<Rightarrow> if n = 0 then d else n)"

definition list_or :: "'a list option \<Rightarrow> 'a list" where
  "list_or v = (case v of None \<Rightarrow> [] | Some xs \<Rightarrow> xs)"

definition new_DAXValidator :: "query_config option \<Rightarrow> DAXValidator" where
  "new_DAXValidator config =
     \<lparr> maxRows = num_or (Option.bind config MAX_DAX_RESULT_ROWS) 10000,
       warningThreshold = num_or (Option.bind config DAX_WARNING_THRESHOLD) 1000,
       blockedPatterns = list_or (Option.bind config BLOCKED_PATTERNS),
       dangerousFunctions = list_or (Option.bind config DANGEROUS_FUNCTIONS) \<rparr>"

record ValidationResult =
  isValid :: bool
  warnings :: "string list"
  errors :: "string list"
  modified :: bool
  modifiedQuery :: jsval

text \<open>The loop over the blocked patterns: each test may move the pattern's \<open>lastIndex\<close>.\<close>

fun check_blocked :: "regexp list \<Rightarrow> string \<Rightarrow> ValidationResult \<Rightarrow> ValidationResult \<times> regexp list" where
  "check_blocked [] q result = (result, [])"
| "check_blocked (pattern # ps) q result =
     (let (hit, pattern') = test pattern q;
          result' = (if hit
            then result\<lparr>isValid := False,
                   errors := errors result @
                     [''Query contains blocked pattern: '' @ source pattern @
                      ''. This may cause performance issues.'']\<rparr>
            else result);
          (result'', ps') = check_blocked ps q result'
      in (result'', pattern' # ps'))"

definition nested_regex :: "string \<Rightarrow> item list" where
  "nested_regex func = lits func @ [Star Space, One (Lit CHR ''(''), Star NotRParen] @ lits func"

fun check_nested :: "string list \<Rightarrow> string \<Rightarrow> ValidationResult \<Rightarrow> ValidationResult" where
  "check_nested [] q result = result"
| "check_nested (func # fs) q result =
     check_nested fs q
       (if test_fresh (nested_regex func) True q
        then result\<lparr>warnings := warnings result @
               [''Nested '' @ func @ '' function detected. This may be slow on large datasets.'']\<rparr>
        else result)"

definition hasEvaluate :: "string \<Rightarrow> bool" where
  "hasEvaluate q = test_fresh ([Bol, Star Space] @ lits ''EVALUATE'') True q"

definition hasTopN :: "string \<Rightarrow> bool" where
  "hasTopN q =
     (test_fresh (lits ''TOPN'' @ [Star Space, One (Lit CHR ''('')]) True q \<or>
      test_fresh (lits ''TOP'' @ [Plus Space, Plus Digit]) True q)"

definition startsSelect :: "string \<Rightarrow> bool" where
  "startsSelect q = test_fresh ([Bol, Star Space] @ lits ''SELECT'') True q"

definition sqlKeywords :: "string list" where
  "sqlKeywords = [''FROM'', ''WHERE'', ''JOIN'', ''GROUP BY'', ''HAVING'']"

fun check_sql :: "string list \<Rightarrow> string \<Rightarrow> ValidationResult \<Rightarrow> ValidationResult" where
  "check_sql [] q result = result"
| "check_sql (keyword # ks) q result =
     check_sql ks q
       (if test_fresh ([WordB] @ lits keyword @ [WordB]) True q \<and>
           \<not> includes_str (toUpperCase q) ''FILTER''
        then result\<lparr>warnings := warnings result @
               [''Found SQL keyword '' @ [CHR 0x27] @ keyword @ [CHR 0x27] @
                ''. Make sure you'' @ [CHR 0x27] @ ''re using DAX syntax, not SQL.'']\<rparr>
        else result)"

definition validate :: "DAXValidator \<Rightarrow> jsval \<Rightarrow> ValidationResult \<times> DAXValidator" where
  "validate this daxQuery =
     (let result = \<lparr> isValid = True, warnings = [], errors = [], modified = False,
                     modifiedQuery = daxQuery \<rparr>
      in if \<not> truthy daxQuery \<or> \<not> is_string daxQuery
         then (result\<lparr>isValid := False, errors := errors result @ [''Query is empty or invalid'']\<rparr>, this)
         else
           let trimmedQuery = trim (to_string daxQuery)
           in if length trimmedQuery = 0
              then (result\<lparr>isValid := False, errors := errors result @ [''Query cannot be empty'']\<rparr>, this)
              else
                let (result1, patterns') = check_blocked (blockedPatterns this) trimmedQuery result;
                    this' = this\<lparr>blockedPatterns := patterns'\<rparr>;
                    result2 = check_nested (dangerousFunctions this) trimmedQuery result1;
                    result3 = (if \<not> hasTopN trimmedQuery \<and> \<not> hasEvaluate trimmedQuery
                      then result2\<lparr>warnings := warnings result2 @
                             [''Query does not have a row limit. Consider adding TOPN('' @
                              show_nat (warningThreshold this) @ '', ...) to limit results.'']\<rparr>
                      else result2);
                    result4 = (if startsSelect trimmedQuery
                      then result3\<lparr>isValid := False, errors := errors result3 @
                             [''Invalid syntax: DAX queries use EVALUATE, not SELECT. '' @
                              ''This tool automatically adds EVALUATE for you.'']\<rparr>
                      else result3);
                    result5 = check_sql sqlKeywords trimmedQuery result4;
                    result6 = (if \<not> hasTopN trimmedQuery \<and> \<not> hasEvaluate trimmedQuery \<and>
                                  isValid result5 \<and>
                                  \<not> includes_str (toUpperCase trimmedQuery) ''$SYSTEM''
                      then result5\<lparr>modified := True,
                             modifiedQuery := JStr (''TOPN('' @ show_nat (maxRows this) @ '', '' @
                                                    trimmedQuery @ '')''),
                             warnings := warnings result5 @
                               [''Automatically limited to '' @ show_nat (maxRows this) @
                                '' rows for safety.'']\<rparr>
                      else result5)
                in (result6, this'))"

record ResultValidation =
  rv_isValid :: bool
  rv_warnings :: "string list"

text \<open>\<open>validateResults\<close> on an array of rows (the only argument it is called with).\<close>

definition validateResults :: "DAXValidator \<Rightarrow> 'a list \<Rightarrow> ResultValidation" where
  "validateResults this results =
     (let validation = \<lparr> rv_isValid = True, rv_warnings = [] \<rparr>;
          validation1 = (if length results > warningThreshold this
            then validation\<lparr>rv_warnings := rv_warnings validation @
                   [''Query returned '' @ show_nat (length results) @
                    '' rows. Large result sets may impact performance.'']\<rparr>
            else validation);
          validation2 = (if length results \<ge> maxRows this
            then validation1\<lparr>rv_warnings := rv_warnings validation1 @
                   [''Result set was truncated at '' @ show_nat (maxRows this) @
                    '' rows. Use TOPN() or FILTER to reduce results.'']\<rparr>
            else validation1)
      in validation2)"

text \<open>
  \<open>sanitize\<close>: a falsy argument gives the empty string; on any other value that is
  not a string the call of \<open>trim\<close> raises.
\<close>

definition sanitize :: "jsval \<Rightarrow> error + string" where
  "sanitize daxQuery =
     (if \<not> truthy daxQuery then Inr []
      else if \<not> is_string daxQuery then Inl (TypeError ''daxQuery.trim is not a function'')
      else
        let sanitized = trim (to_string daxQuery);
            sanitized1 = replace_rx [Plus (Lit CHR '';'')] False '';'' None sanitized;
            sanitized2 = replace_rx [Plus (Lit CHR '';''), Star Space, Eol] False [] None sanitized1
        in Inr sanitized2)"

text \<open>The configuration shipped with the application (\<open>CONFIG.QUERY\<close>).\<close>

definition blocked_regexp :: "string \<Rightarrow> string \<Rightarrow> regexp" where
  "blocked_regexp f g =
     \<lparr> source = f @ [CHR 0x5C] @ ''s*'' @ [CHR 0x5C] @ ''('' @ [CHR 0x5C] @ ''s*'' @ g,
       items = lits f @ [Star Space, One (Lit CHR ''(''), Star Space] @ lits g,
       ignoreCase = True, global = True, lastIndex = 0 \<rparr>"

definition CONFIG_QUERY :: query_config where
  "CONFIG_QUERY =
     \<lparr> MAX_DAX_RESULT_ROWS = Some 10000,
       DAX_WARNING_THRESHOLD = Some 1000,
       BLOCKED_PATTERNS = Some
         [blocked_regexp ''CROSSJOIN'' ''ALL'',
          blocked_regexp ''GENERATE'' ''GENERATE'',
          blocked_regexp ''ADDCOLUMNS'' ''ADDCOLUMNS''],
       DANGEROUS_FUNCTIONS = Some [''UNION'', ''GENERATE'', ''NATURALLEFTOUTERJOIN'', ''NATURALINNERJOIN''] \<rparr>"

section \<open>XML escaping (utils.js)\<close>

text \<open>\<open>replace\<close> with a regular expression that matches one literal text, flag \<open>g\<close>.\<close>

definition replace_lit :: "string \<Rightarrow> string \<Rightarrow> string \<Rightarrow> string" where
  "replace_lit pat rep s = replace_rx (lits pat) False rep None s"

definition escape_chain :: "string \<Rightarrow> string" where
  "escape_chain s =
     replace_lit [CHR 0x27] ''&apos;''
       (replace_lit [CHR 0x22] ''&quot;''
         (replace_lit ''>'' ''&gt;''
           (replace_lit ''<'' ''&lt;''
             (replace_lit ''&'' ''&amp;'' s))))"

definition escapeXml :: "jsval \<Rightarrow> string" where
  "escapeXml unsafe =
     (if unsafe = JNull \<or> unsafe = JUndefined \<or> unsafe = JStr [] then []
      else escape_chain (to_string unsafe))"

definition unescapeXml :: "jsval \<Rightarrow> error + string" where
  "unescapeXml escaped =
     (if \<not> truthy escaped then Inr []
      else if \<not> is_string escaped then Inl (TypeError ''escaped.replace is not a function'')
      else Inr
        (replace_lit ''&amp;'' ''&''
          (replace_lit ''&lt;'' ''<''
            (replace_lit ''&gt;'' ''>''
              (replace_lit ''&quot;'' [CHR 0x22]
                (replace_lit ''&apos;'' [CHR 0x27] (to_string escaped)))))))"

text \<open>
  The entity that \<open>escapeXml\<close> writes for a character, and the same with only the
  characters of a set escaped (the intermediate texts of \<open>unescapeXml\<close>).
\<close>

definition entity :: "char \<Rightarrow> string" where
  "entity c =
     (if c = CHR ''&'' then ''&amp;''
      else if c = CHR ''<'' then ''&lt;''
      else if c = CHR ''>'' then ''&gt;''
      else if c = CHR 0x22 then ''&quot;''
      else if c = CHR 0x27 then ''&apos;''
      else [c])"

definition entity_in :: "char list \<Rightarrow> char \<Rightarrow> string" where
  "entity_in S c = (if c \<in> set S then entity c else [c])"

section \<open>The protocol codec and the connection (xmla-connection.js)\<close>

subsection \<open>Documents\<close>

text \<open>
  A parsed document is its root element. An element has its qualified tag name and
  its child nodes; a selector that is a bare name matches an element by local name.
\<close>

datatype node = Element string "node list" | Text string

fun tagName :: "node \<Rightarrow> string" where
  "tagName (Element t cs) = t"
| "tagName (Text d) = ''#text''"

fun childNodes :: "node \<Rightarrow> node list" where
  "childNodes (Element t cs) = cs"
| "childNodes (Text d) = []"

fun is_element :: "node \<Rightarrow> bool" where
  "is_element (Element t cs) = True"
| "is_element (Text d) = False"

definition children :: "node \<Rightarrow> node list" where
  "children n = filter is_element (childNodes n)"

definition localName :: "string \<Rightarrow> string" where
  "localName t = (if CHR '':'' \<in> set t then tl (dropWhile (\<lambda>c. c \<noteq> CHR '':'') t) else t)"

fun textContent :: "node \<Rightarrow> string" where
  "textContent (Text d) = d"
| "textContent (Element t cs) = concat (map textContent cs)"

text \<open>The elements of a subtree in document order, its root first.\<close>

fun elements :: "node \<Rightarrow> node list" where
  "elements (Text d) = []"
| "elements (Element t cs) = Element t cs # concat (map elements cs)"

definition doc_querySelectorAll :: "string \<Rightarrow> node \<Rightarrow> node list" where
  "doc_querySelectorAll sel doc = filter (\<lambda>n. localName (tagName n) = sel) (elements doc)"

definition doc_querySelector :: "string \<Rightarrow> node \<Rightarrow> node option" where
  "doc_querySelector sel doc = find (\<lambda>n. localName (tagName n) = sel) (elements doc)"

definition el_querySelector :: "string \<Rightarrow> node \<Rightarrow> node option" where
  "el_querySelector sel el =
     find (\<lambda>n. localName (tagName n) = sel) (concat (map elements (childNodes el)))"

subsection \<open>The environment\<close>

text \<open>
  What the connection calls without defining it: the bridge of the desktop shell
  (\<open>window.electronAPI.xmlaRequest\<close>, absent in a plain browser), \<open>fetch\<close> and the
  \<open>DOMParser\<close>. A request is answered depending on the time it is sent, its target
  and its body. The world records every request sent and the time.
\<close>

record ipc_result =
  success :: bool
  data :: string

record fetch_response =
  ok :: bool
  status :: nat
  statusText :: string
  text_body :: "error + string"

record env =
  xmlaRequest :: "(nat \<Rightarrow> string \<Rightarrow> string \<Rightarrow> error + ipc_result) option"
  fetch :: "nat \<Rightarrow> string \<Rightarrow> string \<Rightarrow> error + fetch_response"
  parseFromString :: "string \<Rightarrow> node"

record world =
  sent :: "(string \<times> string) list"
  clock :: nat

type_synonym row = "(string \<times> string) list"

record XMLAConnection =
  server :: string
  database :: string
  xmlaEndpoint :: string
  daxValidator :: "DAXValidator option"
  isConnected :: bool
  lastSuccessfulQuery :: "nat option"

text \<open>
  The constructor; \<open>config\<close> is \<open>None\<close> when \<open>window.CONFIG\<close> or the class
  \<open>DAXValidator\<close> is not there, and else holds \<open>CONFIG.QUERY\<close>.
\<close>

definition new_XMLAConnection :: "string \<Rightarrow> string \<Rightarrow> query_config option option \<Rightarrow> XMLAConnection" where
  "new_XMLAConnection srv db config =
     \<lparr> server = srv, database = db,
       xmlaEndpoint = (if prefix ''http://'' srv \<or> prefix ''https://'' srv
                       then srv @ ''/xmla'' else ''http://'' @ srv @ ''/xmla''),
       daxValidator = map_option new_DAXValidator config,
       isConnected = False,
       lastSuccessfulQuery = None \<rparr>"

subsection \<open>Requests and responses\<close>

text \<open>
  The method \<open>escapeXml\<close> of the connection has three branches (inline, shared
  utility, fallback); on a string they all run the same chain of replacements.
\<close>

definition conn_escapeXml :: "string \<Rightarrow> string" where
  "conn_escapeXml unsafe = (if unsafe = [] then [] else escape_chain unsafe)"

definition nl :: string where
  "nl = [CHR 0x0A]"

definition dq :: string where
  "dq = [CHR 0x22]"

definition sp :: "nat \<Rightarrow> string" where
  "sp n = replicate n CHR '' ''"

definition buildExecuteRequest :: "XMLAConnection \<Rightarrow> string \<Rightarrow> string" where
  "buildExecuteRequest this query =
     ''<?xml version='' @ dq @ ''1.0'' @ dq @ '' encoding='' @ dq @ ''UTF-8'' @ dq @ ''?>'' @ nl @
     ''<soap:Envelope xmlns:soap='' @ dq @ ''http://schemas.xmlsoap.org/soap/envelope/'' @ dq @ nl @
     sp 15 @ ''xmlns:xsi='' @ dq @ ''http://www.w3.org/2001/XMLSchema-instance'' @ dq @ nl @
     sp 15 @ ''xmlns:xsd='' @ dq @ ''http://www.w3.org/2001/XMLSchema'' @ dq @ ''>'' @ nl @
     sp 2 @ ''<soap:Body>'' @ nl @
     sp 4 @ ''<Execute xmlns='' @ dq @ ''urn:schemas-microsoft-com:xml-analysis'' @ dq @ ''>'' @ nl @
     sp 6 @ ''<Command>'' @ nl @
     sp 8 @ ''<Statement>'' @ conn_escapeXml query @ ''</Statement>'' @ nl @
     sp 6 @ ''</Command>'' @ nl @
     sp 6 @ ''<Properties>'' @ nl @
     sp 8 @ ''<PropertyList>'' @ nl @
     sp 10 @ ''<Catalog>'' @ conn_escapeXml (database this) @ ''</Catalog>'' @ nl @
     sp 10 @ ''<Format>Tabular</Format>'' @ nl @
     sp 8 @ ''</PropertyList>'' @ nl @
     sp 6 @ ''</Properties>'' @ nl @
     sp 4 @ ''</Execute>'' @ nl @
     sp 2 @ ''</soap:Body>'' @ nl @
     ''</soap:Envelope>''"

definition fault_message :: "node \<Rightarrow> string" where
  "fault_message fault =
     (case el_querySelector ''faultstring'' fault of
        None \<Rightarrow> ''Unknown SOAP fault''
      | Some f \<Rightarrow> if textContent f = [] then ''Unknown SOAP fault'' else textContent f)"

definition row_data :: "node \<Rightarrow> row" where
  "row_data r =
     foldl (\<lambda>rowData child. AList.update (tagName child) (textContent child) rowData) []
       (children r)"

definition parseXMLResponse :: "env \<Rightarrow> string \<Rightarrow> error + row list" where
  "parseXMLResponse e xmlText =
     (let xmlDoc = parseFromString e xmlText
      in case doc_querySelector ''Fault'' xmlDoc of
           Some fault \<Rightarrow> Inl (Error (''SOAP Fault: '' @ fault_message fault))
         | None \<Rightarrow> Inr (map row_data (doc_querySelectorAll ''row'' xmlDoc)))"

definition sendSOAPRequest ::
  "env \<Rightarrow> XMLAConnection \<Rightarrow> world \<Rightarrow> string \<Rightarrow> (error + row list) \<times> world" where
  "sendSOAPRequest e this w soapBody =
     (let w' = w\<lparr>sent := sent w @ [(xmlaEndpoint this, soapBody)], clock := Suc (clock w)\<rparr>
      in (case xmlaRequest e of
            Some request \<Rightarrow>
              (case request (clock w) (xmlaEndpoint this) soapBody of
                 Inl err \<Rightarrow> Inl err
               | Inr result \<Rightarrow>
                   if success result then parseXMLResponse e (data result)
                   else Inl (Error ''XMLA request failed''))
          | None \<Rightarrow>
              (case fetch e (clock w) (xmlaEndpoint this) soapBody of
                 Inl err \<Rightarrow> Inl err
               | Inr response \<Rightarrow>
                   if \<not> ok response
                   then Inl (Error (''XMLA request failed: '' @ show_nat (status response) @
                                    '' '' @ statusText response))
                   else (case text_body response of
                           Inl err \<Rightarrow> Inl err
                         | Inr xmlText \<Rightarrow> parseXMLResponse e xmlText)),
          w'))"

definition executeDMVQuery ::
  "env \<Rightarrow> XMLAConnection \<Rightarrow> world \<Rightarrow> string \<Rightarrow> (error + row list) \<times> XMLAConnection \<times> world" where
  "executeDMVQuery e this w query =
     (let soapRequest = buildExecuteRequest this query;
          (result, w') = sendSOAPRequest e this w soapRequest
      in case result of
           Inl err \<Rightarrow> (Inl err, this, w')
         | Inr rows \<Rightarrow>
             (Inr rows, this\<lparr>isConnected := True, lastSuccessfulQuery := Some (clock w')\<rparr>, w'))"

definition tables_query :: string where
  "tables_query = nl @ sp 12 @ ''SELECT *'' @ nl @ sp 12 @ ''FROM $SYSTEM.TMSCHEMA_TABLES'' @ nl @ sp 8"

definition columns_query :: string where
  "columns_query = nl @ sp 12 @ ''SELECT *'' @ nl @ sp 12 @ ''FROM $SYSTEM.TMSCHEMA_COLUMNS'' @ nl @ sp 8"

definition measures_query :: string where
  "measures_query = nl @ sp 12 @ ''SELECT *'' @ nl @ sp 12 @ ''FROM $SYSTEM.TMSCHEMA_MEASURES'' @ nl @ sp 8"

definition relationships_query :: string where
  "relationships_query =
     nl @ sp 16 @ ''SELECT'' @ nl @
     sp 20 @ ''[Name] as RelationshipName,'' @ nl @
     sp 20 @ ''[FromTableID],'' @ nl @
     sp 20 @ ''[FromColumnID],'' @ nl @
     sp 20 @ ''[ToTableID],'' @ nl @
     sp 20 @ ''[ToColumnID]'' @ nl @
     sp 16 @ ''FROM $SYSTEM.TMSCHEMA_RELATIONSHIPS'' @ nl @ sp 12"

definition getTables :: "env \<Rightarrow> XMLAConnection \<Rightarrow> world \<Rightarrow> (error + row list) \<times> XMLAConnection \<times> world" where
  "getTables e this w = executeDMVQuery e this w tables_query"

definition getColumns :: "env \<Rightarrow> XMLAConnection \<Rightarrow> world \<Rightarrow> (error + row list) \<times> XMLAConnection \<times> world" where
  "getColumns e this w = executeDMVQuery e this w columns_query"

definition getMeasures :: "env \<Rightarrow> XMLAConnection \<Rightarrow> world \<Rightarrow> (error + row list) \<times> XMLAConnection \<times> world" where
  "getMeasures e this w = executeDMVQuery e this w measures_query"

text \<open>The relationships probe catches every failure and answers with the empty list.\<close>

definition getRelationships :: "env \<Rightarrow> XMLAConnection \<Rightarrow> world \<Rightarrow> row list \<times> XMLAConnection \<times> world" where
  "getRelationships e this w =
     (let (result, this', w') = executeDMVQuery e this w relationships_query
      in case result of
           Inl err \<Rightarrow> ([], this', w')
         | Inr rows \<Rightarrow> (rows, this', w'))"

subsection \<open>The analytical-query pipeline\<close>

record dax_result =
  dax_data :: "row list"
  dax_warnings :: "string list"
  rowCount :: nat

definition addEvaluate :: "string \<Rightarrow> string" where
  "addEvaluate finalQuery =
     (if \<not> test_fresh ([Bol, Star Space] @ lits ''EVALUATE'') True finalQuery
      then ''EVALUATE '' @ finalQuery else finalQuery)"

definition executeDAX ::
  "env \<Rightarrow> XMLAConnection \<Rightarrow> world \<Rightarrow> jsval \<Rightarrow> (error + dax_result) \<times> XMLAConnection \<times> world" where
  "executeDAX e this w daxQuery =
     (case daxValidator this of
        Some validator \<Rightarrow>
          (let (validation, validator') = validate validator daxQuery;
               this1 = this\<lparr>daxValidator := Some validator'\<rparr>
           in if \<not> isValid validation
              then (Inl (Error (''Query validation failed: '' @ join '', '' (errors validation))),
                    this1, w)
              else
                (case sanitize (if modified validation then modifiedQuery validation else daxQuery) of
                   Inl err \<Rightarrow> (Inl err, this1, w)
                 | Inr finalQuery \<Rightarrow>
                     (let (results, this2, w') = executeDMVQuery e this1 w (addEvaluate finalQuery)
                      in case results of
                           Inl err \<Rightarrow> (Inl err, this2, w')
                         | Inr rows \<Rightarrow>
                             (let resultValidation = validateResults validator' rows
                              in (Inr \<lparr> dax_data = rows,
                                        dax_warnings = warnings validation @ rv_warnings resultValidation,
                                        rowCount = length rows \<rparr>, this2, w')))))
      | None \<Rightarrow>
          (let (results, this2, w') = executeDMVQuery e this w (addEvaluate (to_string daxQuery))
           in case results of
                Inl err \<Rightarrow> (Inl err, this2, w')
              | Inr rows \<Rightarrow>
                  (Inr \<lparr> dax_data = rows, dax_warnings = [], rowCount = length rows \<rparr>, this2, w')))"

definition getSampleData ::
  "env \<Rightarrow> XMLAConnection \<Rightarrow> world \<Rightarrow> string \<Rightarrow> nat \<Rightarrow> row list \<times> XMLAConnection \<times> world" where
  "getSampleData e this w tableName rows =
     (let daxQuery = ''TOPN('' @ show_nat rows @ '', '' @ [CHR 0x27] @ tableName @ [CHR 0x27] @ '')'';
          (result, this', w') = executeDAX e this w (JStr daxQuery)
      in case result of
           Inl err \<Rightarrow> ([], this', w')
         | Inr r \<Rightarrow> (dax_data r, this', w'))"

section \<open>The metadata synthesizer (getSemanticModelMetadata)\<close>

record column_desc =
  col_name :: string

record table_desc =
  tbl_name :: "string option"
  columns :: "column_desc list"

record measure_desc =
  msr_name :: "string option"
  msr_table :: "string option"

record relationship_desc =
  rel_name :: string
  rel_from :: string
  rel_to :: string

record summary_counts =
  tableCount :: nat
  measureCount :: nat
  relationshipCount :: nat
  totalColumns :: nat
  tablesWithSampleData :: nat

record snapshot =
  tables :: "table_desc list"
  measures :: "measure_desc list"
  relationships :: "relationship_desc list"
  sampleData :: "(string \<times> row list) list"
  summary :: summary_counts

record metadata_options =
  fetchSampleData :: "bool option"
  maxSampleRows :: "nat option"

text \<open>
  A field of a catalog row is \<open>None\<close> when the row does not have it. \<open>a || b\<close> on
  such fields is \<open>js_or\<close>; \<open>or_default\<close> is \<open>a || 'text'\<close>.
\<close>

definition field :: "row \<Rightarrow> string \<Rightarrow> string option" where
  "field r k = map_of r k"

definition or_default :: "string option \<Rightarrow> string \<Rightarrow> string" where
  "or_default a d = (case a of Some (x # xs) \<Rightarrow> x # xs | _ \<Rightarrow> d)"

definition lookup :: "(string \<times> 'v) list \<Rightarrow> string option \<Rightarrow> 'v option" where
  "lookup m k = map_of m (prop_key k)"

text \<open>The four probes, each degrading to the empty list, in the order they are issued.\<close>

definition or_empty :: "(error + row list) \<Rightarrow> row list" where
  "or_empty r = (case r of Inl err \<Rightarrow> [] | Inr rows \<Rightarrow> rows)"

definition fetchCatalog ::
  "env \<Rightarrow> XMLAConnection \<Rightarrow> world \<Rightarrow>
   (row list \<times> row list \<times> row list \<times> row list) \<times> XMLAConnection \<times> world" where
  "fetchCatalog e this w =
     (let (tablesResult, this1, w1) = getTables e this w;
          (columnsResult, this2, w2) = getColumns e this1 w1;
          (measuresResult, this3, w3) = getMeasures e this2 w2;
          (relationshipsResult, this4, w4) = getRelationships e this3 w3
      in ((or_empty tablesResult, or_empty columnsResult, or_empty measuresResult,
           relationshipsResult), this4, w4))"

definition object_name_of :: "row \<Rightarrow> string option" where
  "object_name_of table =
     js_or (js_or (field table ''Name'') (field table ''ExplicitName'')) (field table ''InferredName'')"

definition column_name_of :: "row \<Rightarrow> string option" where
  "column_name_of col = js_or (field col ''ExplicitName'') (field col ''InferredName'')"

definition build_tableIdToName :: "row list \<Rightarrow> (string \<times> string) list" where
  "build_tableIdToName tablesResult =
     foldl (\<lambda>tableIdToName table.
        (case (field table ''ID'', object_name_of table) of
           (Some tableId, Some tableName) \<Rightarrow>
             if tableId \<noteq> [] \<and> tableName \<noteq> []
             then AList.update tableId tableName tableIdToName else tableIdToName
         | _ \<Rightarrow> tableIdToName)) [] tablesResult"

definition build_columnIdToName :: "row list \<Rightarrow> (string \<times> string) list" where
  "build_columnIdToName columnsResult =
     foldl (\<lambda>columnIdToName col.
        (case (field col ''ID'', column_name_of col) of
           (Some columnId, Some columnName) \<Rightarrow>
             if columnId \<noteq> [] \<and> columnName \<noteq> []
             then AList.update columnId columnName columnIdToName else columnIdToName
         | _ \<Rightarrow> columnIdToName)) [] columnsResult"

definition build_columnsByTable ::
  "(string \<times> string) list \<Rightarrow> row list \<Rightarrow> (string \<times> column_desc list) list" where
  "build_columnsByTable tableIdToName columnsResult =
     foldl (\<lambda>columnsByTable col.
        (case (lookup tableIdToName (field col ''TableID''), column_name_of col) of
           (Some tableName, Some columnName) \<Rightarrow>
             if tableName \<noteq> [] \<and> columnName \<noteq> []
             then AList.update tableName
                    ((case map_of columnsByTable tableName of None \<Rightarrow> [] | Some cs \<Rightarrow> cs) @
                     [\<lparr> col_name = columnName \<rparr>]) columnsByTable
             else columnsByTable
         | _ \<Rightarrow> columnsByTable)) [] columnsResult"

definition build_tables :: "(string \<times> column_desc list) list \<Rightarrow> row list \<Rightarrow> table_desc list" where
  "build_tables columnsByTable tablesResult =
     map (\<lambda>table.
        \<lparr> tbl_name = object_name_of table,
          columns = (case lookup columnsByTable (object_name_of table) of
                       None \<Rightarrow> [] | Some cs \<Rightarrow> cs) \<rparr>) tablesResult"

definition build_measures :: "(string \<times> string) list \<Rightarrow> row list \<Rightarrow> measure_desc list" where
  "build_measures tableIdToName measuresResult =
     map (\<lambda>measure.
        \<lparr> msr_name = object_name_of measure,
          msr_table = lookup tableIdToName (field measure ''TableID'') \<rparr>) measuresResult"

definition resolve_relationship ::
  "(string \<times> string) list \<Rightarrow> (string \<times> string) list \<Rightarrow> row \<Rightarrow> relationship_desc" where
  "resolve_relationship tableIdToName columnIdToName rel =
     (let fromTable = or_default (lookup tableIdToName (field rel ''FromTableID'')) ''Unknown'';
          toTable = or_default (lookup tableIdToName (field rel ''ToTableID'')) ''Unknown'';
          fromColumn = or_default (lookup columnIdToName (field rel ''FromColumnID'')) ''Unknown'';
          toColumn = or_default (lookup columnIdToName (field rel ''ToColumnID'')) ''Unknown''
      in \<lparr> rel_name = or_default (field rel ''RelationshipName'') [],
           rel_from = fromTable @ ''['' @ fromColumn @ '']'',
           rel_to = toTable @ ''['' @ toColumn @ '']'' \<rparr>)"

definition build_relationships ::
  "(string \<times> string) list \<Rightarrow> (string \<times> string) list \<Rightarrow> row list \<Rightarrow> relationship_desc list" where
  "build_relationships tableIdToName columnIdToName relationshipsResult =
     filter (\<lambda>rel. \<not> includes_str (rel_from rel) ''Unknown'' \<and> \<not> includes_str (rel_to rel) ''Unknown'')
       (map (resolve_relationship tableIdToName columnIdToName) relationshipsResult)"

text \<open>The sample fetches, one table after the other, each with its own failure handling.\<close>

fun fetchSamples ::
  "env \<Rightarrow> XMLAConnection \<Rightarrow> world \<Rightarrow> nat \<Rightarrow> table_desc list \<Rightarrow>
   (string \<times> row list) list \<times> XMLAConnection \<times> world" where
  "fetchSamples e this w n [] = ([], this, w)"
| "fetchSamples e this w n (table # ts) =
     (let (samples, this1, w1) = getSampleData e this w (prop_key (tbl_name table)) n;
          (sampleResults, this2, w2) = fetchSamples e this1 w1 n ts
      in ((prop_key (tbl_name table), samples) # sampleResults, this2, w2))"

definition collectSamples :: "(string \<times> row list) list \<Rightarrow> (string \<times> row list) list" where
  "collectSamples sampleResults =
     foldl (\<lambda>sampleData (tableName, samples).
        if length samples > 0 then AList.update tableName samples sampleData else sampleData)
       [] sampleResults"

definition getSemanticModelMetadata ::
  "env \<Rightarrow> XMLAConnection \<Rightarrow> world \<Rightarrow> metadata_options \<Rightarrow> snapshot \<times> XMLAConnection \<times> world" where
  "getSemanticModelMetadata e this w options =
     (let fetchSample = (fetchSampleData options \<noteq> Some False);
          sampleRows = num_or (maxSampleRows options) 3;
          ((tablesResult, columnsResult, measuresResult, relationshipsResult), this1, w1) =
            fetchCatalog e this w;
          tableIdToName = build_tableIdToName tablesResult;
          columnIdToName = build_columnIdToName columnsResult;
          columnsByTable = build_columnsByTable tableIdToName columnsResult;
          tbls = build_tables columnsByTable tablesResult;
          msrs = build_measures tableIdToName measuresResult;
          rels = build_relationships tableIdToName columnIdToName relationshipsResult;
          (samples, this2, w2) =
            (if fetchSample \<and> length tbls > 0
             then (let tablesToSample = take 10 (filter (\<lambda>table. length (columns table) > 0) tbls);
                       (sampleResults, this', w') = fetchSamples e this1 w1 sampleRows tablesToSample
                   in (collectSamples sampleResults, this', w'))
             else ([], this1, w1))
      in (\<lparr> tables = tbls, measures = msrs, relationships = rels, sampleData = samples,
             summary = \<lparr> tableCount = length tbls,
                         measureCount = length msrs,
                         relationshipCount = length rels,
                         totalColumns = length columnsResult,
                         tablesWithSampleData = length samples \<rparr> \<rparr>, this2, w2))"

section \<open>A small model server, for evaluating the definitions\<close>

definition leaf :: "string \<Rightarrow> string \<Rightarrow> node" where
  "leaf t v = Element t [Text v]"

definition example_tables_doc :: node where
  "example_tables_doc =
     Element ''root''
       [Element ''row'' [leaf ''ID'' ''1'', leaf ''Name'' ''Sales''],
        Element ''row'' [leaf ''ID'' ''2'', leaf ''ExplicitName'' ''Customers'']]"

definition example_columns_doc :: node where
  "example_columns_doc =
     Element ''root''
       [Element ''row'' [leaf ''ID'' ''10'', leaf ''TableID'' ''1'', leaf ''ExplicitName'' ''Amount''],
        Element ''row'' [leaf ''ID'' ''11'', leaf ''TableID'' ''2'', leaf ''InferredName'' ''Id''],
        Element ''row'' [leaf ''ID'' ''12'', leaf ''TableID'' ''99'', leaf ''ExplicitName'' ''Orphan''],
        Element ''row'' [leaf ''ID'' ''13'', leaf ''TableID'' ''1'']]"

definition example_relationships_doc :: node where
  "example_relationships_doc =
     Element ''root''
       [Element ''row''
          [leaf ''RelationshipName'' ''r1'', leaf ''FromTableID'' ''1'', leaf ''FromColumnID'' ''10'',
           leaf ''ToTableID'' ''2'', leaf ''ToColumnID'' ''11''],
        Element ''row''
          [leaf ''RelationshipName'' ''r2'', leaf ''FromTableID'' ''1'', leaf ''FromColumnID'' ''10'',
           leaf ''ToTableID'' ''7'', leaf ''ToColumnID'' ''11'']]"

definition example_sample_doc :: node where
  "example_sample_doc = Element ''root'' [Element ''row'' [leaf ''Amount'' ''5'']]"

definition example_fault_doc :: node where
  "example_fault_doc =
     Element ''soap:Envelope''
       [Element ''soap:Body''
          [Element ''soap:Fault''
             [leaf ''faultcode'' ''XMLAnalysisError'', leaf ''faultstring'' ''The query failed''],
           Element ''row'' [leaf ''ID'' ''1'']]]"

definition example_mixed_doc :: node where
  "example_mixed_doc =
     Element ''root''
       [Element ''row'' [leaf ''A'' ''1'', leaf ''B'' ''2''],
        Element ''row'' [leaf ''C'' ''3'']]"

text \<open>The server answers by the time of the request, whatever its body.\<close>

definition example_request :: "nat \<Rightarrow> string \<Rightarrow> string \<Rightarrow> error + ipc_result" where
  "example_request t endpoint body =
     (if t = 0 then Inr \<lparr> success = True, data = ''tables'' \<rparr>
      else if t = 1 then Inr \<lparr> success = True, data = ''columns'' \<rparr>
      else if t = 2 then Inl (Error ''connection reset'')
      else if t = 3 then Inr \<lparr> success = True, data = ''relationships'' \<rparr>
      else if t = 4 then Inr \<lparr> success = True, data = ''fault'' \<rparr>
      else Inr \<lparr> success = True, data = ''sample'' \<rparr>)"

definition example_parse :: "string \<Rightarrow> node" where
  "example_parse xmlText =
     (if xmlText = ''tables'' then example_tables_doc
      else if xmlText = ''columns'' then example_columns_doc
      else if xmlText = ''relationships'' then example_relationships_doc
      else if xmlText = ''fault'' then example_fault_doc
      else if xmlText = ''mixed'' then example_mixed_doc
      else if xmlText = ''sample'' then example_sample_doc
      else Element ''root'' [])"

definition example_env :: env where
  "example_env =
     \<lparr> xmlaRequest = Some example_request,
       fetch = (\<lambda>t endpoint body. Inl (Error ''Failed to fetch'')),
       parseFromString = example_parse \<rparr>"

definition refusing_env :: env where
  "refusing_env =
     \<lparr> xmlaRequest = Some (\<lambda>t endpoint body. Inl (Error ''connection refused'')),
       fetch = (\<lambda>t endpoint body. Inl (Error ''Failed to fetch'')),
       parseFromString = example_parse \<rparr>"

definition empty_env :: env where
  "empty_env =
     \<lparr> xmlaRequest = Some (\<lambda>t endpoint body. Inr \<lparr> success = True, data = ''empty'' \<rparr>),
       fetch = (\<lambda>t endpoint body. Inl (Error ''Failed to fetch'')),
       parseFromString = example_parse \<rparr>"

definition example_validator :: DAXValidator where
  "example_validator = new_DAXValidator (Some CONFIG_QUERY)"

definition example_conn :: XMLAConnection where
  "example_conn = new_XMLAConnection ''localhost:51542'' ''Model'' (Some (Some CONFIG_QUERY))"

definition world0 :: world where
  "world0 = \<lparr> sent = [], clock = 0 \<rparr>"

definition default_options :: metadata_options where
  "default_options = \<lparr> fetchSampleData = None, maxSampleRows = None \<rparr>"

section \<open>Properties of the regular expressions for a literal text\<close>

lemma match_here_lits:
  "match_here (lits p) False prev rest = (if prefix p rest then Some (length p) else None)"
proof (induction p arbitrary: prev rest)
  case Nil
  show ?case by (simp add: lits_def)
next
  case (Cons c p)
  have step: "match_here (lits p) False pv r = (if prefix p r then Some (length p) else None)" for pv r
    using Cons.IH by simp
  show ?case
  proof (cases rest)
    case Nil
    then show ?thesis by (simp add: lits_def)
  next
    case (Cons x xs)
    have "lits (c # p) = One (Lit c) # lits p" by (simp add: lits_def)
    then show ?thesis using Cons step by auto
  qed
qed

lemma replace_rx_lits_Nil:
  "p \<noteq> [] \<Longrightarrow> replace_rx (lits p) False rep prev [] = []"
  by (subst replace_rx.simps) (simp add: match_here_lits)

lemma replace_rx_lits_Cons:
  "p \<noteq> [] \<Longrightarrow> replace_rx (lits p) False rep prev (x # xs) =
     (if prefix p (x # xs)
      then rep @ replace_rx (lits p) False rep (Some ((x # xs) ! (length p - 1))) (drop (length p - 1) xs)
      else x # replace_rx (lits p) False rep (Some x) xs)"
  by (subst replace_rx.simps) (simp add: match_here_lits)

lemma replace_rx_lits_prev:
  "p \<noteq> [] \<Longrightarrow> replace_rx (lits p) False rep (Some c) s = replace_rx (lits p) False rep None s"
proof (induction s arbitrary: c rule: length_induct)
  case (1 s)
  show ?case
  proof (cases s)
    case Nil
    with 1(2) show ?thesis by (simp add: replace_rx_lits_Nil)
  next
    case (Cons x xs)
    show ?thesis
      unfolding Cons replace_rx_lits_Cons [OF 1(2)] ..
  qed
qed

lemma replace_lit_Nil: "p \<noteq> [] \<Longrightarrow> replace_lit p rep [] = []"
  by (simp add: replace_lit_def replace_rx_lits_Nil)

lemma replace_lit_Cons:
  "p \<noteq> [] \<Longrightarrow> replace_lit p rep (x # xs) =
     (if prefix p (x # xs) then rep @ replace_lit p rep (drop (length p - 1) xs)
      else x # replace_lit p rep xs)"
  unfolding replace_lit_def
  by (simp add: replace_rx_lits_Cons replace_rx_lits_prev)

section \<open>XML escaping\<close>

lemma replace_char:
  "replace_lit [c] rep s = concat (map (\<lambda>x. if x = c then rep else [x]) s)"
  by (induction s) (auto simp: replace_lit_Nil replace_lit_Cons)

lemma escape_chain_entity: "escape_chain s = concat (map entity s)"
  by (induction s) (auto simp: escape_chain_def replace_char entity_def)

lemma unescape_step1:
  "replace_lit ''&apos;'' [CHR 0x27] (concat (map (entity_in [CHR ''&'', CHR ''<'', CHR ''>'', CHR 0x22, CHR 0x27]) s)) =
   concat (map (entity_in [CHR ''&'', CHR ''<'', CHR ''>'', CHR 0x22]) s)"
  by (induction s) (auto simp: replace_lit_Nil replace_lit_Cons entity_in_def entity_def)

lemma unescape_step2:
  "replace_lit ''&quot;'' [CHR 0x22] (concat (map (entity_in [CHR ''&'', CHR ''<'', CHR ''>'', CHR 0x22]) s)) =
   concat (map (entity_in [CHR ''&'', CHR ''<'', CHR ''>'']) s)"
  by (induction s) (auto simp: replace_lit_Nil replace_lit_Cons entity_in_def entity_def)

lemma unescape_step3:
  "replace_lit ''&gt;'' ''>'' (concat (map (entity_in [CHR ''&'', CHR ''<'', CHR ''>'']) s)) =
   concat (map (entity_in [CHR ''&'', CHR ''<'']) s)"
  by (induction s) (auto simp: replace_lit_Nil replace_lit_Cons entity_in_def entity_def)

lemma unescape_step4:
  "replace_lit ''&lt;'' ''<'' (concat (map (entity_in [CHR ''&'', CHR ''<'']) s)) =
   concat (map (entity_in [CHR ''&'']) s)"
  by (induction s) (auto simp: replace_lit_Nil replace_lit_Cons entity_in_def entity_def)

lemma unescape_step5:
  "replace_lit ''&amp;'' ''&'' (concat (map (entity_in [CHR ''&'']) s)) = s"
  by (induction s) (auto simp: replace_lit_Nil replace_lit_Cons entity_in_def entity_def)

lemma entity_in_all: "entity_in [CHR ''&'', CHR ''<'', CHR ''>'', CHR 0x22, CHR 0x27] = entity"
  by (rule ext) (simp add: entity_in_def entity_def)

lemma entity_nonempty: "entity c \<noteq> []"
  by (simp add: entity_def)

text \<open>
  Claim C8: escaping and unescaping round-trip. For every string \<open>s\<close>,
  \<open>unescapeXml(escapeXml(s))\<close> returns \<open>s\<close>: \<open>escapeXml\<close> replaces the ampersand
  first and the other four characters after it, \<open>unescapeXml\<close> reverses the
  entities with the ampersand last.
\<close>

theorem unescapeXml_escapeXml: "unescapeXml (JStr (escapeXml (JStr s))) = Inr s"
proof (cases "s = []")
  case True
  then show ?thesis by (simp add: escapeXml_def unescapeXml_def)
next
  case False
  then have ne: "concat (map entity s) \<noteq> []"
    by (cases s) (simp_all add: entity_nonempty)
  have esc: "escapeXml (JStr s) = concat (map entity s)"
    using False by (simp add: escapeXml_def escape_chain_entity)
  have "replace_lit ''&amp;'' ''&''
          (replace_lit ''&lt;'' ''<''
            (replace_lit ''&gt;'' ''>''
              (replace_lit ''&quot;'' [CHR 0x22]
                (replace_lit ''&apos;'' [CHR 0x27] (concat (map entity s)))))) = s"
    unfolding entity_in_all [symmetric]
    by (simp only: unescape_step1 unescape_step2 unescape_step3 unescape_step4 unescape_step5)
  then show ?thesis
    using ne by (simp add: unescapeXml_def esc)
qed

section \<open>The query validator\<close>

lemma fst_check_blocked_Cons:
  "fst (check_blocked (p # ps) q r) =
     fst (check_blocked ps q
       (if fst (test p q)
        then r\<lparr>isValid := False,
               errors := errors r @
                 [''Query contains blocked pattern: '' @ source p @
                  ''. This may cause performance issues.'']\<rparr>
        else r))"
  by (simp add: Let_def split: prod.splits)

lemma check_blocked_keeps:
  "warnings (fst (check_blocked ps q r)) = warnings r \<and>
   modified (fst (check_blocked ps q r)) = modified r \<and>
   modifiedQuery (fst (check_blocked ps q r)) = modifiedQuery r"
proof (induction ps arbitrary: r)
  case Nil
  show ?case by simp
next
  case (Cons p ps)
  show ?case unfolding fst_check_blocked_Cons using Cons.IH by simp
qed

lemma check_blocked_sound:
  "(\<not> isValid r \<longrightarrow> errors r \<noteq> []) \<Longrightarrow>
   (\<not> isValid (fst (check_blocked ps q r)) \<longrightarrow> errors (fst (check_blocked ps q r)) \<noteq> [])"
proof (induction ps arbitrary: r)
  case Nil
  then show ?case by simp
next
  case (Cons p ps)
  show ?case unfolding fst_check_blocked_Cons
    by (rule Cons.IH) (use Cons.prems in simp)
qed

lemma check_blocked_isValid:
  "isValid (fst (check_blocked ps q r)) = (isValid r \<and> list_all (\<lambda>p. \<not> fst (test p q)) ps)"
proof (induction ps arbitrary: r)
  case Nil
  show ?case by simp
next
  case (Cons p ps)
  show ?case unfolding fst_check_blocked_Cons Cons.IH by simp
qed

lemma check_nested_keeps:
  "isValid (check_nested fs q r) = isValid r \<and> errors (check_nested fs q r) = errors r \<and>
   modified (check_nested fs q r) = modified r \<and>
   modifiedQuery (check_nested fs q r) = modifiedQuery r"
  by (induction fs arbitrary: r) simp_all

lemma check_sql_keeps:
  "isValid (check_sql ks q r) = isValid r \<and> errors (check_sql ks q r) = errors r \<and>
   modified (check_sql ks q r) = modified r \<and>
   modifiedQuery (check_sql ks q r) = modifiedQuery r"
  by (induction ks arbitrary: r) simp_all

text \<open>What \<open>validate\<close> returns for a text that is not empty after trimming.\<close>

lemma fst_validate_text:
  assumes "q \<noteq> []" and "trim q \<noteq> []"
  shows "fst (validate this (JStr q)) =
    (let result1 = fst (check_blocked (blockedPatterns this) (trim q)
           \<lparr> isValid = True, warnings = [], errors = [], modified = False, modifiedQuery = JStr q \<rparr>);
         result2 = check_nested (dangerousFunctions this) (trim q) result1;
         result3 = (if \<not> hasTopN (trim q) \<and> \<not> hasEvaluate (trim q)
           then result2\<lparr>warnings := warnings result2 @
                  [''Query does not have a row limit. Consider adding TOPN('' @
                   show_nat (warningThreshold this) @ '', ...) to limit results.'']\<rparr>
           else result2);
         result4 = (if startsSelect (trim q)
           then result3\<lparr>isValid := False, errors := errors result3 @
                  [''Invalid syntax: DAX queries use EVALUATE, not SELECT. '' @
                   ''This tool automatically adds EVALUATE for you.'']\<rparr>
           else result3);
         result5 = check_sql sqlKeywords (trim q) result4
     in if \<not> hasTopN (trim q) \<and> \<not> hasEvaluate (trim q) \<and> isValid result5 \<and>
           \<not> includes_str (toUpperCase (trim q)) ''$SYSTEM''
        then result5\<lparr>modified := True,
               modifiedQuery := JStr (''TOPN('' @ show_nat (maxRows this) @ '', '' @ trim q @ '')''),
               warnings := warnings result5 @
                 [''Automatically limited to '' @ show_nat (maxRows this) @ '' rows for safety.'']\<rparr>
        else result5)"
  using assms by (simp add: validate_def Let_def split_def)

lemma validate_isValid_iff:
  "isValid (fst (validate this (JStr q))) =
     (q \<noteq> [] \<and> trim q \<noteq> [] \<and> list_all (\<lambda>p. \<not> fst (test p (trim q))) (blockedPatterns this) \<and>
      \<not> startsSelect (trim q))"
proof (cases "q \<noteq> [] \<and> trim q \<noteq> []")
  case True
  then show ?thesis
    by (simp add: fst_validate_text Let_def check_sql_keeps check_nested_keeps check_blocked_isValid)
next
  case False
  then show ?thesis by (auto simp: validate_def Let_def)
qed

lemma validate_modified_iff:
  "modified (fst (validate this (JStr q))) =
     (isValid (fst (validate this (JStr q))) \<and> \<not> hasTopN (trim q) \<and> \<not> hasEvaluate (trim q) \<and>
      \<not> includes_str (toUpperCase (trim q)) ''$SYSTEM'')"
proof (cases "q \<noteq> [] \<and> trim q \<noteq> []")
  case True
  then show ?thesis
    by (simp add: fst_validate_text Let_def check_sql_keeps check_nested_keeps check_blocked_keeps)
next
  case False
  then show ?thesis by (auto simp: validate_def Let_def)
qed

text \<open>
  Claim C1, as amended: for every query text that \<open>validate\<close> accepts
  (\<open>isValid\<close> is true: the text is not empty after trimming, no blocked pattern
  matches and it does not start with SELECT) and that has no row-limiting construct
  (\<open>TOPN(\<close> or \<open>TOP n\<close>), no leading EVALUATE marker and no \<open>$SYSTEM\<close> marker,
  \<open>validate\<close> returns \<open>modified = true\<close>, \<open>modifiedQuery\<close> is the trimmed text wrapped
  as \<open>TOPN(maxRows, text)\<close>, and the last warning is the explanatory one.
\<close>

theorem validate_auto_limit:
  assumes "\<not> hasTopN (trim q)" and "\<not> hasEvaluate (trim q)"
    and "\<not> includes_str (toUpperCase (trim q)) ''$SYSTEM''"
    and "isValid (fst (validate this (JStr q)))"
  shows "modified (fst (validate this (JStr q))) \<and>
         modifiedQuery (fst (validate this (JStr q))) =
           JStr (''TOPN('' @ show_nat (maxRows this) @ '', '' @ trim q @ '')'') \<and>
         warnings (fst (validate this (JStr q))) \<noteq> [] \<and>
         last (warnings (fst (validate this (JStr q)))) =
           ''Automatically limited to '' @ show_nat (maxRows this) @ '' rows for safety.''"
proof -
  from assms(4) have ne: "q \<noteq> []" "trim q \<noteq> []"
    by (simp_all add: validate_isValid_iff)
  have v: "\<not> startsSelect (trim q)" "list_all (\<lambda>p. \<not> fst (test p (trim q))) (blockedPatterns this)"
    using assms(4) by (simp_all add: validate_isValid_iff)
  show ?thesis
    using assms(1-3) v
    by (simp add: fst_validate_text [OF ne] Let_def check_sql_keeps check_nested_keeps check_blocked_isValid)
qed

lemma example_blocked_patterns:
  "blockedPatterns example_validator =
     [blocked_regexp ''CROSSJOIN'' ''ALL'', blocked_regexp ''GENERATE'' ''GENERATE'',
      blocked_regexp ''ADDCOLUMNS'' ''ADDCOLUMNS'']"
  by (simp add: example_validator_def new_DAXValidator_def CONFIG_QUERY_def list_or_def)

lemma digit_chars:
  "digit_char 0 = CHR ''0''" "digit_char 1 = CHR ''1''" "digit_char 2 = CHR ''2''"
  "digit_char 3 = CHR ''3''" "digit_char 4 = CHR ''4''" "digit_char 5 = CHR ''5''"
  "digit_char 6 = CHR ''6''" "digit_char 7 = CHR ''7''" "digit_char 8 = CHR ''8''"
  "digit_char 9 = CHR ''9''" "digit_char (Suc 0) = CHR ''1''"
  by code_simp+

lemma show_nat_10000: "show_nat 10000 = ''10000''"
  by (simp add: show_nat.simps digit_chars)

lemma example_maxRows: "show_nat (maxRows example_validator) = ''10000''"
  by (simp add: example_validator_def new_DAXValidator_def CONFIG_QUERY_def num_or_def show_nat_10000)

lemma validate_invariants:
  "(\<not> isValid (fst (validate this daxQuery)) \<longrightarrow> errors (fst (validate this daxQuery)) \<noteq> []) \<and>
   (\<not> modified (fst (validate this daxQuery)) \<longrightarrow> modifiedQuery (fst (validate this daxQuery)) = daxQuery)"
proof (cases "\<not> truthy daxQuery \<or> \<not> is_string daxQuery")
  case True
  then show ?thesis by (simp add: validate_def)
next
  case outer: False
  then obtain q where q: "daxQuery = JStr q" "q \<noteq> []"
    by (cases daxQuery) simp_all
  show ?thesis
  proof (cases "trim q = []")
    case True
    with q show ?thesis by (simp add: validate_def)
  next
    case False
    let ?r0 = "\<lparr> isValid = True, warnings = [], errors = [], modified = False, modifiedQuery = JStr q \<rparr>"
    have s1: "\<not> isValid (fst (check_blocked (blockedPatterns this) (trim q) ?r0)) \<longrightarrow>
              errors (fst (check_blocked (blockedPatterns this) (trim q) ?r0)) \<noteq> []"
      by (rule check_blocked_sound) simp
    show ?thesis
      unfolding q(1) fst_validate_text [OF q(2) False]
      using s1 by (simp add: Let_def check_nested_keeps check_sql_keeps check_blocked_keeps)
  qed
qed

lemma validate_unmodified:
  "\<not> modified (fst (validate this daxQuery)) \<Longrightarrow> modifiedQuery (fst (validate this daxQuery)) = daxQuery"
  using validate_invariants [of this daxQuery] by simp

theorem validate_auto_limit_witness:
  "\<not> hasTopN (trim [CHR 0x27, CHR ''T'', CHR 0x27]) \<and>
   \<not> hasEvaluate (trim [CHR 0x27, CHR ''T'', CHR 0x27]) \<and>
   \<not> includes_str (toUpperCase (trim [CHR 0x27, CHR ''T'', CHR 0x27])) ''$SYSTEM'' \<and>
   isValid (fst (validate example_validator (JStr [CHR 0x27, CHR ''T'', CHR 0x27]))) \<and>
   modified (fst (validate example_validator (JStr [CHR 0x27, CHR ''T'', CHR 0x27]))) \<and>
   modifiedQuery (fst (validate example_validator (JStr [CHR 0x27, CHR ''T'', CHR 0x27]))) =
     JStr (''TOPN(10000, '' @ [CHR 0x27, CHR ''T'', CHR 0x27] @ '')'')"
proof -
  have t: "trim [CHR 0x27, CHR ''T'', CHR 0x27] = [CHR 0x27, CHR ''T'', CHR 0x27]"
    by code_simp
  have h1: "\<not> hasTopN (trim [CHR 0x27, CHR ''T'', CHR 0x27])"
    unfolding t by code_simp
  have h2: "\<not> hasEvaluate (trim [CHR 0x27, CHR ''T'', CHR 0x27])"
    unfolding t by code_simp
  have h3: "\<not> includes_str (toUpperCase (trim [CHR 0x27, CHR ''T'', CHR 0x27])) ''$SYSTEM''"
    unfolding t by code_simp
  have b: "list_all (\<lambda>p. \<not> fst (test p [CHR 0x27, CHR ''T'', CHR 0x27])) (blockedPatterns example_validator)"
    unfolding example_blocked_patterns by code_simp
  have s: "\<not> startsSelect [CHR 0x27, CHR ''T'', CHR 0x27]"
    by code_simp
  have h4: "isValid (fst (validate example_validator (JStr [CHR 0x27, CHR ''T'', CHR 0x27])))"
    unfolding validate_isValid_iff t using b s by simp
  from validate_auto_limit [OF h1 h2 h3 h4] h1 h2 h3 h4 show ?thesis
    by (simp add: t example_maxRows)
qed

theorem validate_auto_limit_counterexample:
  "\<not> hasTopN (trim ''SELECT 1'') \<and> \<not> hasEvaluate (trim ''SELECT 1'') \<and>
   \<not> includes_str (toUpperCase (trim ''SELECT 1'')) ''$SYSTEM'' \<and>
   \<not> modified (fst (validate example_validator (JStr ''SELECT 1''))) \<and>
   modifiedQuery (fst (validate example_validator (JStr ''SELECT 1''))) = JStr ''SELECT 1''"
proof -
  have t: "trim ''SELECT 1'' = ''SELECT 1''"
    by code_simp
  have h1: "\<not> hasTopN ''SELECT 1''"
    by code_simp
  have h2: "\<not> hasEvaluate ''SELECT 1''"
    by code_simp
  have h3: "\<not> includes_str (toUpperCase ''SELECT 1'') ''$SYSTEM''"
    by code_simp
  have s: "startsSelect ''SELECT 1''"
    by code_simp
  have m: "\<not> modified (fst (validate example_validator (JStr ''SELECT 1'')))"
    unfolding validate_modified_iff validate_isValid_iff t using s by simp
  have k: "modifiedQuery (fst (validate example_validator (JStr ''SELECT 1''))) = JStr ''SELECT 1''"
    using m by (rule validate_unmodified)
  show ?thesis using h1 h2 h3 m k by (simp add: t)
qed

text \<open>
  Claim C5: for every input value, the result of \<open>validate\<close> has a non-empty
  \<open>errors\<close> whenever \<open>isValid\<close> is false, and its \<open>modifiedQuery\<close> is the input
  unchanged whenever \<open>modified\<close> is false.
\<close>

theorem validate_result_invariant:
  "(\<not> isValid (fst (validate this daxQuery)) \<longrightarrow> errors (fst (validate this daxQuery)) \<noteq> []) \<and>
   (\<not> modified (fst (validate this daxQuery)) \<longrightarrow> modifiedQuery (fst (validate this daxQuery)) = daxQuery)"
  by (rule validate_invariants)

theorem validate_result_invariant_witness:
  "\<not> isValid (fst (validate example_validator (JStr ''SELECT 1''))) \<and>
   errors (fst (validate example_validator (JStr ''SELECT 1''))) \<noteq> [] \<and>
   \<not> modified (fst (validate example_validator (JStr ''SELECT 1''))) \<and>
   modifiedQuery (fst (validate example_validator (JStr ''SELECT 1''))) = JStr ''SELECT 1''"
proof -
  have t: "trim ''SELECT 1'' = ''SELECT 1''"
    by code_simp
  have s: "startsSelect ''SELECT 1''"
    by code_simp
  have v: "\<not> isValid (fst (validate example_validator (JStr ''SELECT 1'')))"
    unfolding validate_isValid_iff t using s by simp
  have m: "\<not> modified (fst (validate example_validator (JStr ''SELECT 1'')))"
    unfolding validate_modified_iff using v by simp
  from validate_result_invariant [of example_validator "JStr ''SELECT 1''"] v m
  show ?thesis by simp
qed

text \<open>
  Claim C6 at a failing input: \<open>sanitize\<close> leaves the whitespace that stood before
  a trailing semicolon, so a second pass changes the text again; and of two trailing
  semicolons separated by whitespace only the last is removed.
\<close>

theorem sanitize_not_idempotent:
  "sanitize (JStr ''EVALUATE T ;'') = Inr ''EVALUATE T '' \<and>
   sanitize (JStr ''EVALUATE T '') = Inr ''EVALUATE T'' \<and>
   sanitize (JStr ''EVALUATE T; ;'') = Inr ''EVALUATE T; ''"
  by code_simp

end
